theory Spec2Isabelle
  imports Complex_Main "HOL-Library.AList"
begin

section \<open>Data model of the polygon drawing mode\<close>

text \<open>
  The development embeds \<^verbatim>\<open>src/modes/polygon/polygon.mode.ts\<close>, the class
  \<^verbatim>\<open>TerraDrawPolygonMode\<close>. A coordinate is a pair of numbers (longitude,
  latitude). JavaScript numbers are read as real numbers: the handlers copy coordinates
  around and compare them through a collaborator, and the only arithmetic is the small
  offset added in the mouse-move preview.

  Reading a JavaScript array out of range does not fail, it yields \<^verbatim>\<open>undefined\<close>.
  A ring is therefore a list of optional positions, \<open>None\<close> standing for
  \<^verbatim>\<open>undefined\<close>.
\<close>

type_synonym position = "real \<times> real"

type_synonym ring = "position option list"

datatype geometry = Polygon "ring list" | Point "position option"

record feature =
  geometry :: geometry
  modeProperty :: string

type_synonym feature_id = string

type_synonym feature_store = "(feature_id \<times> feature) list"

datatype error = NoSuchFeature | TypeError

record mouse_event =
  lng :: real
  lat :: real
  containerX :: real
  containerY :: real

record keyboard_event =
  key :: string

record key_events =
  cancel :: string

record closing_result =
  isClosing :: bool
  isPreviousClosing :: bool

text \<open>
  The collaborators whose code is not part of the class: the handle the store assigns
  to the next feature it creates, the snap resolver, the pixel-distance test behind the
  closing point detector, the coordinate equality check, the self-intersection guard,
  and the coordinate precision held by the base class. They are parameters of every
  handler, so that each theorem holds for whatever these collaborators compute.
\<close>

record collaborators =
  assignId :: "feature_store \<Rightarrow> feature_id"
  getSnappableCoordinate :: "mouse_event \<Rightarrow> feature_id \<Rightarrow> feature_store \<Rightarrow> position option"
  isClosingPoint :: "mouse_event \<Rightarrow> feature_id list \<Rightarrow> feature_store \<Rightarrow> closing_result"
  coordinatesIdentical :: "position \<Rightarrow> position \<Rightarrow> bool"
  selfIntersects :: "ring list \<Rightarrow> bool"
  coordinatePrecision :: int

text \<open>
  The fields of the class, together with the state it reaches through its base class
  and its behaviours: the feature store, the ids held by the closing points behaviour,
  and the cursor last set. \<open>currentCoordinate\<close> counts the committed vertices; it is
  only ever reset to 0 or incremented, so it is a natural number.
\<close>

record polygon_mode =
  currentCoordinate :: nat
  currentId :: "feature_id option"
  allowSelfIntersections :: bool
  keyEvents :: key_events
  snappingEnabled :: bool
  isClosed :: bool
  closingPointIds :: "feature_id list"
  store :: feature_store
  cursor :: string

text \<open>The options of the constructor that the class itself reads;
  \<^verbatim>\<open>pointerDistance\<close> and \<^verbatim>\<open>styles\<close> are passed on to the base class.\<close>

record options =
  opt_allowSelfIntersections :: "bool option"
  opt_snapping :: "bool option"
  opt_keyEvents :: "key_events option"

section \<open>JavaScript conventions\<close>

text \<open>
  \<^verbatim>\<open>this.currentId\<close> has type \<^verbatim>\<open>string | undefined\<close>; in a condition it
  counts as true when it is a non-empty string. \<open>idString\<close> reads the handle where
  the source passes \<^verbatim>\<open>this.currentId\<close> on as a string.
\<close>

definition idString :: "feature_id option \<Rightarrow> feature_id" where
  "idString i = (case i of None \<Rightarrow> [] | Some s \<Rightarrow> s)"

definition truthy :: "feature_id option \<Rightarrow> bool" where
  "truthy i = (idString i \<noteq> [])"

text \<open>\<^verbatim>\<open>xs[i]\<close>: \<^verbatim>\<open>undefined\<close> out of range.\<close>

definition entry :: "ring \<Rightarrow> nat \<Rightarrow> position option" where
  "entry xs i = (if i < length xs then xs ! i else None)"

text \<open>\<^verbatim>\<open>xs.slice(0, -k)\<close>: all but the last \<open>k\<close> entries, empty when there are
  no more than \<open>k\<close>.\<close>

definition slice0 :: "ring \<Rightarrow> nat \<Rightarrow> ring" where
  "slice0 xs k = take (length xs - k) xs"

section \<open>The feature store\<close>

text \<open>
  The feature store (\<^verbatim>\<open>src/store/store.ts\<close>) is not among the sources. Its four
  operations are modelled from the interface the spec gives them, over an association
  list from handles to features. A call that fails changes nothing.
\<close>

text \<open>Modelled from the spec: \<^verbatim>\<open>create(features) \<rightarrow> ids\<close> stores each feature
  under the handle the store assigns to it and returns the handles.\<close>

fun store_create ::
  "collaborators \<Rightarrow> feature list \<Rightarrow> feature_store \<Rightarrow> feature_id list \<times> feature_store" where
  "store_create env [] st = ([], st)"
| "store_create env (f # fs) st =
     (let i = assignId env st;
          r = store_create env fs (AList.update i f st)
      in (i # fst r, snd r))"

text \<open>Modelled from the spec: \<^verbatim>\<open>getGeometryCopy(id) \<rightarrow> Geometry\<close> returns the
  geometry stored under the id; an id that is not stored is an error.\<close>

definition getGeometryCopy :: "feature_store \<Rightarrow> feature_id \<Rightarrow> error + geometry" where
  "getGeometryCopy st i =
     (case map_of st i of None \<Rightarrow> Inl NoSuchFeature | Some f \<Rightarrow> Inr (geometry f))"

text \<open>Modelled from the spec: \<^verbatim>\<open>updateGeometry(patches)\<close> replaces the geometry
  stored under each id of the call; an id that is not stored is an error.\<close>

fun updateGeometry :: "(feature_id \<times> geometry) list \<Rightarrow> feature_store \<Rightarrow> error + feature_store" where
  "updateGeometry [] st = Inr st"
| "updateGeometry (p # ps) st =
     (case map_of st (fst p) of
        None \<Rightarrow> Inl NoSuchFeature
      | Some f \<Rightarrow> updateGeometry ps (AList.update (fst p) (f\<lparr>geometry := snd p\<rparr>) st))"

text \<open>Modelled from the spec: \<^verbatim>\<open>delete(ids)\<close> removes the features; deleting a
  feature that is not stored (already removed) is the deletion failure the spec
  names.\<close>

fun store_delete :: "feature_id list \<Rightarrow> feature_store \<Rightarrow> error + feature_store" where
  "store_delete [] st = Inr st"
| "store_delete (i # is) st =
     (case map_of st i of
        None \<Rightarrow> Inl NoSuchFeature
      | Some f \<Rightarrow> store_delete is (AList.delete i st))"

text \<open>
  \<^verbatim>\<open>this.store.getGeometryCopy<Polygon>(id).coordinates[0]\<close>, the ring of the
  polygon under construction. Every path of the handlers reads an entry of this ring
  before it changes anything, so a polygon without a ring stops the handler with the
  TypeError of that read. The type annotation of the source admits polygons only; a
  point stored under the handle is reported as the same error.
\<close>

definition ringOf :: "geometry \<Rightarrow> error + ring" where
  "ringOf g =
     (case g of
        Polygon (r # rs) \<Rightarrow> Inr r
      | Polygon [] \<Rightarrow> Inl TypeError
      | Point p \<Rightarrow> Inl TypeError)"

definition currentRing :: "feature_store \<Rightarrow> feature_id \<Rightarrow> error + ring" where
  "currentRing st i = (case getGeometryCopy st i of Inl e \<Rightarrow> Inl e | Inr g \<Rightarrow> ringOf g)"

section \<open>The closing points behaviour\<close>

text \<open>
  The closing point detector (\<^verbatim>\<open>behaviors/closing-points.behavior.ts\<close>) is not
  among the sources either. Its state is the list of marker ids it holds
  (\<^verbatim>\<open>this.closingPoints.ids\<close>); its proximity query
  \<^verbatim>\<open>isClosingPoint(event)\<close> rests on pixel distances and is the collaborator
  \<open>isClosingPoint\<close>.
\<close>

text \<open>Modelled from the spec: \<^verbatim>\<open>create(ring, shapeKind)\<close> places a marker, a
  point feature, at \<^verbatim>\<open>ring[0]\<close> and keeps its id.\<close>

definition closingPoints_create ::
  "collaborators \<Rightarrow> ring \<Rightarrow> string \<Rightarrow> polygon_mode \<Rightarrow> polygon_mode" where
  "closingPoints_create env coords shapeKind m =
     (let r = store_create env
                [\<lparr>geometry = Point (entry coords 0), modeProperty = shapeKind\<rparr>] (store m)
      in m\<lparr>closingPointIds := fst r, store := snd r\<rparr>)"

text \<open>Modelled from the spec: \<^verbatim>\<open>update(ring)\<close> repositions the markers held to
  the ring's first vertex.\<close>

definition closingPoints_update :: "ring \<Rightarrow> polygon_mode \<Rightarrow> error + polygon_mode" where
  "closingPoints_update coords m =
     (case updateGeometry (map (\<lambda>i. (i, Point (entry coords 0))) (closingPointIds m)) (store m) of
        Inl e \<Rightarrow> Inl e
      | Inr st \<Rightarrow> Inr (m\<lparr>store := st\<rparr>))"

text \<open>Modelled from the spec: \<^verbatim>\<open>delete()\<close> removes the marker features and
  forgets their ids; it is safe to call when no markers exist.\<close>

definition closingPoints_delete :: "polygon_mode \<Rightarrow> error + polygon_mode" where
  "closingPoints_delete m =
     (if closingPointIds m \<noteq> [] then
        (case store_delete (closingPointIds m) (store m) of
           Inl e \<Rightarrow> Inl e
         | Inr st \<Rightarrow> Inr (m\<lparr>closingPointIds := [], store := st\<rparr>))
      else Inr m)"

section \<open>The mode\<close>

subsection \<open>Construction\<close>

text \<open>
  The constructor and the field initialisers. The part set up by the base class and by
  \<^verbatim>\<open>registerBehaviors\<close> (the store the mode is registered with, the cursor) is
  taken as given.
\<close>

definition constructor :: "options option \<Rightarrow> feature_store \<Rightarrow> string \<Rightarrow> polygon_mode" where
  "constructor opts st cur =
     \<lparr>currentCoordinate = 0,
      currentId = None,
      allowSelfIntersections =
        (case opts of None \<Rightarrow> True
         | Some os \<Rightarrow> (case opt_allowSelfIntersections os of None \<Rightarrow> True | Some b \<Rightarrow> b)),
      keyEvents =
        (case opts of None \<Rightarrow> \<lparr>cancel = ''Escape''\<rparr>
         | Some os \<Rightarrow> (case opt_keyEvents os of None \<Rightarrow> \<lparr>cancel = ''Escape''\<rparr> | Some k \<Rightarrow> k)),
      snappingEnabled =
        (case opts of None \<Rightarrow> False
         | Some os \<Rightarrow> (case opt_snapping os of None \<Rightarrow> False | Some b \<Rightarrow> b)),
      isClosed = False,
      closingPointIds = [],
      store = st,
      cursor = cur\<rparr>"

definition setCursor :: "string \<Rightarrow> polygon_mode \<Rightarrow> polygon_mode" where
  "setCursor c m = m\<lparr>cursor := c\<rparr>"

subsection \<open>Helpers shared by the handlers\<close>

text \<open>
  \<^verbatim>\<open>if (closestCoord) { event.lng = closestCoord[0]; event.lat = closestCoord[1]; }\<close>:
  the event is overwritten in place, and the rest of the handler reads the overwritten
  event.
\<close>

definition applySnap :: "position option \<Rightarrow> mouse_event \<Rightarrow> mouse_event" where
  "applySnap closestCoord event =
     (case closestCoord of None \<Rightarrow> event | Some c \<Rightarrow> event\<lparr>lng := fst c, lat := snd c\<rparr>)"

definition eventPosition :: "mouse_event \<Rightarrow> position" where
  "eventPosition event = (lng event, lat event)"

text \<open>\<^verbatim>\<open>this.store.updateGeometry([{ id: this.currentId, geometry: ... }])\<close> for the
  polygon under construction.\<close>

definition updateCurrent :: "ring \<Rightarrow> polygon_mode \<Rightarrow> error + polygon_mode" where
  "updateCurrent coords m =
     (case updateGeometry [(idString (currentId m), Polygon [coords])] (store m) of
        Inl e \<Rightarrow> Inl e
      | Inr st \<Rightarrow> Inr (m\<lparr>store := st\<rparr>))"

text \<open>\<^verbatim>\<open>coordinatesIdentical([event.lng, event.lat], previousCoordinate)\<close>: the check
  reads the components of both arguments, so an \<^verbatim>\<open>undefined\<close> previous coordinate
  is a TypeError.\<close>

definition identicalTo :: "collaborators \<Rightarrow> position \<Rightarrow> position option \<Rightarrow> error + bool" where
  "identicalTo env p previousCoordinate =
     (case previousCoordinate of
        None \<Rightarrow> Inl TypeError
      | Some q \<Rightarrow> Inr (coordinatesIdentical env p q))"

subsection \<open>onMouseMove\<close>

text \<open>The tail of \<^verbatim>\<open>onMouseMove\<close>: store the updated ring, then reposition the
  closing markers if there are any.\<close>

definition storePreview :: "ring \<Rightarrow> polygon_mode \<Rightarrow> error + polygon_mode" where
  "storePreview updatedCoordinates m =
     (case updateCurrent updatedCoordinates m of
        Inl e \<Rightarrow> Inl e
      | Inr m' \<Rightarrow>
          if closingPointIds m' \<noteq> [] then closingPoints_update updatedCoordinates m'
          else Inr m')"

definition onMouseMove :: "collaborators \<Rightarrow> mouse_event \<Rightarrow> polygon_mode \<Rightarrow> error + polygon_mode" where
  "onMouseMove env event0 m0 =
     (let m = setCursor ''crosshair'' m0 in
      if \<not> truthy (currentId m) \<or> currentCoordinate m = 0 then Inr m
      else
        (let closestCoord =
               (if snappingEnabled m
                then getSnappableCoordinate env event0 (idString (currentId m)) (store m)
                else None)
         in case currentRing (store m) (idString (currentId m)) of
              Inl e \<Rightarrow> Inl e
            | Inr coords \<Rightarrow>
               (let event = applySnap closestCoord event0 in
                if currentCoordinate m = 1 then
                  (let epsilon = 1 / (10 powi (coordinatePrecision env - 1));
                       offset = max (1 / 1000000) epsilon
                   in storePreview
                        [entry coords 0,
                         Some (lng event, lat event),
                         Some (lng event, lat event + offset),
                         entry coords 0] m)
                else if currentCoordinate m = 2 then
                  storePreview
                    [entry coords 0, entry coords 1, Some (lng event, lat event), entry coords 0] m
                else
                  (let r = isClosingPoint env event (closingPointIds m) (store m) in
                   if isPreviousClosing r \<or> isClosing r then
                     storePreview (slice0 coords 2 @ [entry coords 0, entry coords 0])
                       ((setCursor ''pointer'' m)\<lparr>isClosed := True\<rparr>)
                   else
                     storePreview (slice0 coords 2 @ [Some (lng event, lat event), entry coords 0])
                       (m\<lparr>isClosed := False\<rparr>)))))"

subsection \<open>onClick\<close>

text \<open>The result of \<^verbatim>\<open>this.snapping.getSnappableCoordinate\<close> as \<^verbatim>\<open>onClick\<close>
  asks for it: only with a current id and with snapping enabled.\<close>

definition clickSnap :: "collaborators \<Rightarrow> mouse_event \<Rightarrow> polygon_mode \<Rightarrow> position option" where
  "clickSnap env event0 m =
     (if truthy (currentId m) \<and> snappingEnabled m
      then getSnappableCoordinate env event0 (idString (currentId m)) (store m)
      else None)"

text \<open>Branch \<^verbatim>\<open>this.currentCoordinate === 0\<close>.\<close>

definition clickIdle :: "collaborators \<Rightarrow> mouse_event \<Rightarrow> polygon_mode \<Rightarrow> error + polygon_mode" where
  "clickIdle env event0 m =
     (let event = applySnap (clickSnap env event0 m) event0;
          p = Some (lng event, lat event);
          r = store_create env
                [\<lparr>geometry = Polygon [[p, p, p, p]], modeProperty = ''polygon''\<rparr>] (store m)
      in Inr (m\<lparr>store := snd r,
                currentId := (case fst r of [] \<Rightarrow> None | newId # ids \<Rightarrow> Some newId),
                currentCoordinate := currentCoordinate m + 1\<rparr>))"

text \<open>Branch \<^verbatim>\<open>this.currentCoordinate === 1 && this.currentId\<close>.\<close>

definition clickFirst :: "collaborators \<Rightarrow> mouse_event \<Rightarrow> polygon_mode \<Rightarrow> error + polygon_mode" where
  "clickFirst env event0 m =
     (let event = applySnap (clickSnap env event0 m) event0 in
      case currentRing (store m) (idString (currentId m)) of
        Inl e \<Rightarrow> Inl e
      | Inr coords \<Rightarrow>
         (case identicalTo env (lng event, lat event) (entry coords 0) of
            Inl e \<Rightarrow> Inl e
          | Inr isIdentical \<Rightarrow>
              if isIdentical then Inr m
              else
                (case updateCurrent
                        [entry coords 0, Some (lng event, lat event), Some (lng event, lat event),
                         entry coords 0] m of
                   Inl e \<Rightarrow> Inl e
                 | Inr m' \<Rightarrow> Inr (m'\<lparr>currentCoordinate := currentCoordinate m' + 1\<rparr>))))"

text \<open>Branch \<^verbatim>\<open>this.currentCoordinate === 2 && this.currentId\<close>.\<close>

definition clickSecond :: "collaborators \<Rightarrow> mouse_event \<Rightarrow> polygon_mode \<Rightarrow> error + polygon_mode" where
  "clickSecond env event0 m =
     (let event = applySnap (clickSnap env event0 m) event0 in
      case currentRing (store m) (idString (currentId m)) of
        Inl e \<Rightarrow> Inl e
      | Inr coords \<Rightarrow>
         (case identicalTo env (lng event, lat event) (entry coords 1) of
            Inl e \<Rightarrow> Inl e
          | Inr isIdentical \<Rightarrow>
              if isIdentical then Inr m
              else
                (let m1 = (if currentCoordinate m = 2
                           then closingPoints_create env coords ''polygon'' m else m)
                 in case updateCurrent
                           [entry coords 0, entry coords 1, Some (lng event, lat event),
                            Some (lng event, lat event), entry coords 0] m1 of
                      Inl e \<Rightarrow> Inl e
                    | Inr m' \<Rightarrow> Inr (m'\<lparr>currentCoordinate := currentCoordinate m' + 1\<rparr>))))"

text \<open>Branch \<^verbatim>\<open>this.currentId\<close>, first half: the pointer is in the closing
  hit-zone.\<close>

definition clickClose :: "ring \<Rightarrow> polygon_mode \<Rightarrow> error + polygon_mode" where
  "clickClose coords m =
     (case updateCurrent (slice0 coords 2 @ [entry coords 0]) m of
        Inl e \<Rightarrow> Inl e
      | Inr m' \<Rightarrow> closingPoints_delete (m'\<lparr>currentCoordinate := 0, currentId := None\<rparr>))"

text \<open>Second half: the pointer is elsewhere, and a vertex is added unless the click
  repeats the previous vertex or the guard vetoes the candidate ring.\<close>

definition clickAdd ::
  "collaborators \<Rightarrow> mouse_event \<Rightarrow> ring \<Rightarrow> polygon_mode \<Rightarrow> error + polygon_mode" where
  "clickAdd env event0 coords m =
     (let event = applySnap (clickSnap env event0 m) event0 in
      case identicalTo env (lng event, lat event) (entry coords (currentCoordinate m - 1)) of
        Inl e \<Rightarrow> Inl e
      | Inr isIdentical \<Rightarrow>
          if isIdentical then Inr m
          else
            (let updatedPolygon = [slice0 coords 1 @ [Some (lng event, lat event), entry coords 0]] in
             if currentCoordinate m > 2 \<and> \<not> allowSelfIntersections m
                \<and> selfIntersects env updatedPolygon
             then Inr m
             else
               (case updateGeometry [(idString (currentId m), Polygon updatedPolygon)] (store m) of
                  Inl e \<Rightarrow> Inl e
                | Inr st \<Rightarrow> Inr (m\<lparr>store := st, currentCoordinate := currentCoordinate m + 1\<rparr>))))"

definition clickDrawing :: "collaborators \<Rightarrow> mouse_event \<Rightarrow> polygon_mode \<Rightarrow> error + polygon_mode" where
  "clickDrawing env event0 m =
     (case currentRing (store m) (idString (currentId m)) of
        Inl e \<Rightarrow> Inl e
      | Inr coords \<Rightarrow>
         (let r = isClosingPoint env event0 (closingPointIds m) (store m) in
          if isPreviousClosing r \<or> isClosing r then clickClose coords m
          else clickAdd env event0 coords m))"

definition onClick :: "collaborators \<Rightarrow> mouse_event \<Rightarrow> polygon_mode \<Rightarrow> error + polygon_mode" where
  "onClick env event0 m =
     (if currentCoordinate m = 0 then clickIdle env event0 m
      else if currentCoordinate m = 1 \<and> truthy (currentId m) then clickFirst env event0 m
      else if currentCoordinate m = 2 \<and> truthy (currentId m) then clickSecond env event0 m
      else if truthy (currentId m) then clickDrawing env event0 m
      else Inr m)"

subsection \<open>cleanUp and onKeyUp\<close>

text \<open>
  The body of the \<^verbatim>\<open>try\<close> block of \<^verbatim>\<open>cleanUp\<close>, with the state at the moment
  it is left: at its end, or at the call that threw (a failing store call changes
  nothing).
\<close>

definition cleanUpTry :: "polygon_mode \<Rightarrow> polygon_mode" where
  "cleanUpTry m =
     (case (if truthy (currentId m)
            then (case store_delete [idString (currentId m)] (store m) of
                    Inl e \<Rightarrow> Inl e
                  | Inr st \<Rightarrow> Inr (m\<lparr>store := st\<rparr>))
            else Inr m) of
        Inl e \<Rightarrow> m
      | Inr m1 \<Rightarrow>
          (case (if closingPointIds m1 \<noteq> [] then closingPoints_delete m1 else Inr m1) of
             Inl e \<Rightarrow> m1
           | Inr m2 \<Rightarrow> m2))"

definition cleanUp :: "polygon_mode \<Rightarrow> polygon_mode" where
  "cleanUp m = (cleanUpTry m)\<lparr>currentId := None, currentCoordinate := 0\<rparr>"

definition onKeyUp :: "keyboard_event \<Rightarrow> polygon_mode \<Rightarrow> polygon_mode" where
  "onKeyUp event m = (if key event = cancel (keyEvents m) then cleanUp m else m)"

subsection \<open>The remaining handlers\<close>

text \<open>
  \<^verbatim>\<open>start\<close>, \<^verbatim>\<open>stop\<close> and the drag handlers set the cursor; \<^verbatim>\<open>stop\<close> also
  cleans up. \<^verbatim>\<open>setStarted\<close> and \<^verbatim>\<open>setStopped\<close> write a flag of the base class
  that this class never reads; it is left out. \<^verbatim>\<open>onKeyDown\<close> and \<^verbatim>\<open>onDrag\<close>
  have empty bodies.
\<close>

definition start :: "polygon_mode \<Rightarrow> polygon_mode" where
  "start m = setCursor ''crosshair'' m"

definition stop :: "polygon_mode \<Rightarrow> polygon_mode" where
  "stop m = cleanUp (setCursor ''unset'' m)"

definition onKeyDown :: "polygon_mode \<Rightarrow> polygon_mode" where
  "onKeyDown m = m"

definition onDragStart :: "polygon_mode \<Rightarrow> polygon_mode" where
  "onDragStart m = setCursor ''unset'' m"

definition onDrag :: "polygon_mode \<Rightarrow> polygon_mode" where
  "onDrag m = m"

definition onDragEnd :: "polygon_mode \<Rightarrow> polygon_mode" where
  "onDragEnd m = setCursor ''crosshair'' m"

subsection \<open>Sessions\<close>

text \<open>The host calls the handlers one at a time, each running to completion; \<open>run\<close>
  feeds a list of calls to the mode, and stops at the first handler that throws.\<close>

datatype input =
    Click mouse_event
  | Move mouse_event
  | KeyUp keyboard_event
  | KeyDown
  | DragStart
  | Drag
  | DragEnd
  | Start
  | Stop

definition handle :: "collaborators \<Rightarrow> input \<Rightarrow> polygon_mode \<Rightarrow> error + polygon_mode" where
  "handle env i m =
     (case i of
        Click event \<Rightarrow> onClick env event m
      | Move event \<Rightarrow> onMouseMove env event m
      | KeyUp event \<Rightarrow> Inr (onKeyUp event m)
      | KeyDown \<Rightarrow> Inr (onKeyDown m)
      | DragStart \<Rightarrow> Inr (onDragStart m)
      | Drag \<Rightarrow> Inr (onDrag m)
      | DragEnd \<Rightarrow> Inr (onDragEnd m)
      | Start \<Rightarrow> Inr (start m)
      | Stop \<Rightarrow> Inr (stop m))"

fun run :: "collaborators \<Rightarrow> input list \<Rightarrow> polygon_mode \<Rightarrow> error + polygon_mode" where
  "run env [] m = Inr m"
| "run env (i # inputs) m =
     (case handle env i m of Inl e \<Rightarrow> Inl e | Inr m' \<Rightarrow> run env inputs m')"

section \<open>Vocabulary of the properties\<close>

text \<open>The coordinate a click works with: the pointer's, or the snap resolver's
  replacement when \<^verbatim>\<open>onClick\<close> obtained one.\<close>

definition clickedPoint :: "collaborators \<Rightarrow> mouse_event \<Rightarrow> polygon_mode \<Rightarrow> position" where
  "clickedPoint env event0 m = eventPosition (applySnap (clickSnap env event0 m) event0)"

text \<open>The pointer is in the closing hit-zone: line 291 of the source,
  \<^verbatim>\<open>isPreviousClosing || isClosing\<close>.\<close>

definition inClosingZone :: "collaborators \<Rightarrow> mouse_event \<Rightarrow> polygon_mode \<Rightarrow> bool" where
  "inClosingZone env event m =
     (let r = isClosingPoint env event (closingPointIds m) (store m)
      in isPreviousClosing r \<or> isClosing r)"

text \<open>The configuration fixed at construction.\<close>

definition configuration :: "polygon_mode \<Rightarrow> bool \<times> bool \<times> key_events" where
  "configuration m = (allowSelfIntersections m, snappingEnabled m, keyEvents m)"

text \<open>A ring is closed when it is not empty and its first and last entries are the
  same coordinate.\<close>

definition closedRing :: "ring \<Rightarrow> bool" where
  "closedRing coords = (coords \<noteq> [] \<and> hd coords = last coords)"

text \<open>The store hands out handles that are non-empty strings and not in use.\<close>

definition freshIds :: "collaborators \<Rightarrow> bool" where
  "freshIds env = (\<forall>st. assignId env st \<noteq> [] \<and> map_of st (assignId env st) = None)"

text \<open>
  The shape of a session between two events. At Idle there is no feature and no marker.
  Otherwise the handle is set, the polygon is stored under it with a closed ring of
  defined coordinates, of 4 entries at one committed vertex and of two more than the
  committed vertices afterwards; one closing marker is stored, under a handle of its
  own, from the third committed vertex on.
\<close>

definition wellFormed :: "polygon_mode \<Rightarrow> bool" where
  "wellFormed m =
     (if currentCoordinate m = 0 then currentId m = None \<and> closingPointIds m = []
      else
        truthy (currentId m)
        \<and> (case currentRing (store m) (idString (currentId m)) of
             Inl e \<Rightarrow> False
           | Inr coords \<Rightarrow>
               length coords = (if currentCoordinate m = 1 then 4 else currentCoordinate m + 2)
               \<and> list_all (\<lambda>c. c \<noteq> None) coords
               \<and> closedRing coords)
        \<and> (if currentCoordinate m < 3 then closingPointIds m = []
           else
             (case closingPointIds m of
                [j] \<Rightarrow> j \<noteq> idString (currentId m) \<and> map_of (store m) j \<noteq> None
              | _ \<Rightarrow> False)))"

section \<open>An example scene\<close>

text \<open>
  Concrete collaborators and sessions on which the theorems below are instantiated.
  The scene is the scenario of the spec: clicks at (0,0), (1,1) and (2,0). Pixels are
  coordinates times 100 and the hit radius is 40 pixels. The detector measures against
  the two places where the scene shows its closing zones: the start vertex (0,0) and the
  third vertex (2,0), the one before the preview tail.
\<close>

text \<open>Handles are runs of the letter f, one longer than the longest handle in
  use.\<close>

definition exampleId :: "feature_store \<Rightarrow> feature_id" where
  "exampleId st = replicate (Suc (foldr (\<lambda>p n. max (length (fst p)) n) st 0)) (CHR ''f'')"

definition exampleDetector :: "mouse_event \<Rightarrow> feature_id list \<Rightarrow> feature_store \<Rightarrow> closing_result" where
  "exampleDetector event ids st =
     \<lparr>isClosing = (containerX event * containerX event + containerY event * containerY event < 1600),
      isPreviousClosing =
        ((containerX event - 200) * (containerX event - 200)
           + containerY event * containerY event < 1600)\<rparr>"

text \<open>Modelled from the spec: the self-intersection guard of the example scene, true
  when two edges of the ring cross in a point interior to both (edges that only touch
  at a shared vertex do not count).\<close>

definition orient :: "position \<Rightarrow> position \<Rightarrow> position \<Rightarrow> real" where
  "orient a b c = (fst b - fst a) * (snd c - snd a) - (snd b - snd a) * (fst c - fst a)"

definition crosses :: "position \<times> position \<Rightarrow> position \<times> position \<Rightarrow> bool" where
  "crosses e f =
     (orient (fst e) (snd e) (fst f) * orient (fst e) (snd e) (snd f) < 0
      \<and> orient (fst f) (snd f) (fst e) * orient (fst f) (snd f) (snd e) < 0)"

fun edges :: "position list \<Rightarrow> (position \<times> position) list" where
  "edges (a # b # rest) = (a, b) # edges (b # rest)"
| "edges rest = []"

definition exampleGuard :: "ring list \<Rightarrow> bool" where
  "exampleGuard rings =
     (case rings of
        [] \<Rightarrow> False
      | r # rs \<Rightarrow>
          (let es = edges (List.map_filter id r)
           in list_ex (\<lambda>e. list_ex (crosses e) es) es))"

definition example_env :: collaborators where
  "example_env =
     \<lparr>assignId = exampleId,
      getSnappableCoordinate = (\<lambda>event i st. None),
      isClosingPoint = exampleDetector,
      coordinatesIdentical = (\<lambda>p q. p = q),
      selfIntersects = exampleGuard,
      coordinatePrecision = 9\<rparr>"

text \<open>The same collaborators with a snap resolver that always suggests (5,5).\<close>

definition snapping_env :: collaborators where
  "snapping_env = example_env\<lparr>getSnappableCoordinate := (\<lambda>event i st. Some (5, 5))\<rparr>"

definition pointer :: "real \<Rightarrow> real \<Rightarrow> mouse_event" where
  "pointer x y = \<lparr>lng = x, lat = y, containerX = 100 * x, containerY = 100 * y\<rparr>"

definition escape :: keyboard_event where
  "escape = \<lparr>key = ''Escape''\<rparr>"

definition polygonFeature :: "ring \<Rightarrow> feature" where
  "polygonFeature coords = \<lparr>geometry = Polygon [coords], modeProperty = ''polygon''\<rparr>"

definition marker :: "position \<Rightarrow> feature" where
  "marker p = \<lparr>geometry = Point (Some p), modeProperty = ''polygon''\<rparr>"

text \<open>A mode constructed without options, not yet clicked.\<close>

definition idle_session :: polygon_mode where
  "idle_session = constructor None [] ''crosshair''"

text \<open>The session after the clicks at (0,0), (1,1) and (2,0): three committed
  vertices, the preview tail on the third, one closing marker at the start.\<close>

definition triangle_session :: polygon_mode where
  "triangle_session =
     \<lparr>currentCoordinate = 3,
      currentId = Some ''f'',
      allowSelfIntersections = True,
      keyEvents = \<lparr>cancel = ''Escape''\<rparr>,
      snappingEnabled = False,
      isClosed = False,
      closingPointIds = [''ff''],
      store =
        [(''f'', polygonFeature [Some (0, 0), Some (1, 1), Some (2, 0), Some (2, 0), Some (0, 0)]),
         (''ff'', marker (0, 0))],
      cursor = ''crosshair''\<rparr>"

text \<open>The same session after another actor removed the polygon from the store.\<close>

definition orphaned_session :: polygon_mode where
  "orphaned_session = triangle_session\<lparr>store := [(''ff'', marker (0, 0))]\<rparr>"

text \<open>One vertex further: after a move to (3,1) and a click there, with no move
  since. \<^verbatim>\<open>onClick\<close> does not reposition the closing markers, so the closing zones
  are where they were.\<close>

definition quad_session :: polygon_mode where
  "quad_session =
     triangle_session\<lparr>
       currentCoordinate := 4,
       store :=
         [(''f'', polygonFeature
                   [Some (0, 0), Some (1, 1), Some (2, 0), Some (3, 1), Some (3, 1), Some (0, 0)]),
          (''ff'', marker (0, 0))]\<rparr>"

text \<open>A mode constructed with \<^verbatim>\<open>{ snapping: true }\<close>, not yet clicked.\<close>

definition snapping_idle :: polygon_mode where
  "snapping_idle =
     constructor
       (Some \<lparr>opt_allowSelfIntersections = None, opt_snapping = Some True, opt_keyEvents = None\<rparr>)
       [] ''crosshair''"

text \<open>The options object \<^verbatim>\<open>{}\<close>.\<close>

definition no_options :: options where
  "no_options = \<lparr>opt_allowSelfIntersections = None, opt_snapping = None, opt_keyEvents = None\<rparr>"

section \<open>Properties\<close>

subsection \<open>Facts about the store and about rings\<close>

lemmas handler_defs =
  onClick_def clickIdle_def clickFirst_def clickSecond_def clickDrawing_def clickClose_def
  clickAdd_def clickSnap_def applySnap_def identicalTo_def updateCurrent_def
  onMouseMove_def storePreview_def setCursor_def
  closingPoints_create_def closingPoints_update_def closingPoints_delete_def
  cleanUp_def cleanUpTry_def onKeyUp_def handle_def
  currentRing_def getGeometryCopy_def ringOf_def entry_def slice0_def
  truthy_def idString_def clickedPoint_def eventPosition_def inClosingZone_def

lemmas scene_defs =
  example_env_def snapping_env_def exampleId_def exampleDetector_def exampleGuard_def
  orient_def crosses_def pointer_def escape_def polygonFeature_def marker_def
  idle_session_def triangle_session_def orphaned_session_def quad_session_def
  snapping_idle_def no_options_def constructor_def

lemma currentRing_InrD:
  "currentRing st i = Inr coords \<Longrightarrow> \<exists>f rs. map_of st i = Some f \<and> geometry f = Polygon (coords # rs)"
  by (auto simp: currentRing_def getGeometryCopy_def ringOf_def
      split: option.splits geometry.splits list.splits)

lemma currentRing_update_same:
  "currentRing (AList.update i (f\<lparr>geometry := Polygon [coords]\<rparr>) st) i = Inr coords"
  by (simp add: currentRing_def getGeometryCopy_def ringOf_def update_conv')

lemma polygon_ring_update:
  "currentRing (AList.update i (polygonFeature coords) st) i = Inr coords"
  by (simp add: currentRing_def getGeometryCopy_def ringOf_def update_conv' polygonFeature_def)

lemma currentRing_update_other:
  "j \<noteq> i \<Longrightarrow> currentRing (AList.update j f st) i = currentRing st i"
  by (simp add: currentRing_def getGeometryCopy_def update_conv')

lemma currentRing_delete_other:
  "j \<noteq> i \<Longrightarrow> currentRing (AList.delete j st) i = currentRing st i"
  by (simp add: currentRing_def getGeometryCopy_def delete_conv')

lemma updateCurrent_ok:
  assumes "map_of (store m) (idString (currentId m)) = Some f"
  shows "updateCurrent coords m =
           Inr (m\<lparr>store := AList.update (idString (currentId m))
                             (f\<lparr>geometry := Polygon [coords]\<rparr>) (store m)\<rparr>)"
  using assms by (simp add: updateCurrent_def)

lemma snapped_position:
  "(lng (applySnap (clickSnap env event m) event), lat (applySnap (clickSnap env event m) event))
     = clickedPoint env event m"
  by (simp add: clickedPoint_def eventPosition_def)

lemma clickedPoint_allow:
  "clickedPoint env event (m\<lparr>allowSelfIntersections := b\<rparr>) = clickedPoint env event m"
  by (simp add: clickedPoint_def clickSnap_def)

lemma entry_defined:
  "list_all (\<lambda>c. c \<noteq> None) coords \<Longrightarrow> i < length coords \<Longrightarrow> \<exists>p. entry coords i = Some p"
  by (auto simp add: entry_def list_all_length)

subsection \<open>Clicks\<close>

text \<open>
  Claim C7. A click in the Idle state (\<open>currentCoordinate = 0\<close>) creates a feature whose
  ring is the clicked point four times, stores it under the handle the store assigns,
  records that handle in \<open>currentId\<close> and sets the count to 1. The clicked point is
  the pointer position whenever no feature id is held, which is the case in every Idle
  state the handlers produce.
\<close>

theorem idle_click_creates_feature:
  assumes "currentCoordinate m = 0"
  shows "onClick env event m =
           Inr (m\<lparr>store := AList.update (assignId env (store m))
                              (polygonFeature (replicate 4 (Some (clickedPoint env event m))))
                              (store m),
                  currentId := Some (assignId env (store m)),
                  currentCoordinate := 1\<rparr>)
         \<and> currentRing
              (AList.update (assignId env (store m))
                 (polygonFeature (replicate 4 (Some (clickedPoint env event m)))) (store m))
              (assignId env (store m))
             = Inr (replicate 4 (Some (clickedPoint env event m)))
         \<and> (\<not> truthy (currentId m) \<longrightarrow> clickedPoint env event m = (lng event, lat event))"
  using assms
  by (simp add: onClick_def clickIdle_def clickedPoint_def eventPosition_def polygonFeature_def
      clickSnap_def applySnap_def Let_def numeral_eq_Suc polygon_ring_update [unfolded polygonFeature_def])

theorem idle_click_creates_feature_witness:
  "currentCoordinate idle_session = 0
   \<and> onClick example_env (pointer 0 0) idle_session =
       Inr (idle_session\<lparr>
              store := [(''f'', polygonFeature [Some (0, 0), Some (0, 0), Some (0, 0), Some (0, 0)])],
              currentId := Some ''f'', currentCoordinate := 1\<rparr>)
   \<and> clickedPoint example_env (pointer 0 0) idle_session = (0, 0)"
proof -
  have idle: "currentCoordinate idle_session = 0"
    by (simp add: scene_defs)
  show ?thesis
    using idle_click_creates_feature [OF idle, of example_env "pointer 0 0"] idle
    by (simp add: handler_defs scene_defs numeral_eq_Suc)
qed

text \<open>
  Claim C1, as amended. In the Drawing state (three or more committed vertices, the
  polygon stored, one closing marker stored under a handle of its own), a single click
  inside the closing hit-zone finalizes at once: the stored ring becomes the ring
  without its last two entries, followed by the first vertex; the closing marker is
  deleted; \<open>currentId\<close> becomes undefined and the count 0. The click leaves
  \<open>isClosed\<close> as it was.
\<close>

theorem closing_click_finalizes:
  assumes drawing: "2 < currentCoordinate m" "truthy (currentId m)"
    and ring: "currentRing (store m) (idString (currentId m)) = Inr coords"
    and zone: "inClosingZone env event m"
    and markers: "closingPointIds m = [j]" "j \<noteq> idString (currentId m)" "map_of (store m) j \<noteq> None"
  shows "\<exists>st. onClick env event m =
                 Inr (m\<lparr>store := st, closingPointIds := [], currentCoordinate := 0, currentId := None\<rparr>)
              \<and> currentRing st (idString (currentId m)) = Inr (slice0 coords 2 @ [entry coords 0])
              \<and> map_of st j = None"
proof -
  obtain f rs where f: "map_of (store m) (idString (currentId m)) = Some f"
    using currentRing_InrD [OF ring] by blast
  let ?i = "idString (currentId m)"
  let ?st1 = "AList.update ?i (f\<lparr>geometry := Polygon [slice0 coords 2 @ [entry coords 0]]\<rparr>) (store m)"
  have j: "map_of ?st1 j \<noteq> None"
    using markers by (simp add: update_conv')
  have click: "onClick env event m = clickDrawing env event m"
    using drawing by (simp add: onClick_def)
  have "clickDrawing env event m = clickClose coords m"
    using ring zone by (simp add: clickDrawing_def inClosingZone_def Let_def)
  also have "\<dots> = Inr (m\<lparr>store := AList.delete j ?st1, closingPointIds := [],
                           currentCoordinate := 0, currentId := None\<rparr>)"
    using j markers(1) by (auto simp add: clickClose_def updateCurrent_ok [OF f] closingPoints_delete_def)
  finally have "onClick env event m =
      Inr (m\<lparr>store := AList.delete j ?st1, closingPointIds := [],
             currentCoordinate := 0, currentId := None\<rparr>)"
    using click by simp
  moreover have "currentRing (AList.delete j ?st1) ?i = Inr (slice0 coords 2 @ [entry coords 0])"
    using markers(2) by (simp add: currentRing_delete_other currentRing_update_same)
  moreover have "map_of (AList.delete j ?st1) j = None"
    by (simp add: delete_conv')
  ultimately show ?thesis by blast
qed

theorem closing_click_finalizes_witness:
  "2 < currentCoordinate triangle_session
   \<and> truthy (currentId triangle_session)
   \<and> currentRing (store triangle_session) (idString (currentId triangle_session))
       = Inr [Some (0, 0), Some (1, 1), Some (2, 0), Some (2, 0), Some (0, 0)]
   \<and> inClosingZone example_env (pointer (1 / 10) (1 / 10)) triangle_session
   \<and> closingPointIds triangle_session = [''ff'']
   \<and> map_of (store triangle_session) ''ff'' = Some (marker (0, 0))
   \<and> (\<exists>st. onClick example_env (pointer (1 / 10) (1 / 10)) triangle_session =
               Inr (triangle_session\<lparr>store := st, closingPointIds := [],
                      currentCoordinate := 0, currentId := None\<rparr>)
            \<and> currentRing st ''f'' = Inr [Some (0, 0), Some (1, 1), Some (2, 0), Some (0, 0)]
            \<and> map_of st ''ff'' = None)"
proof -
  have h: "2 < currentCoordinate triangle_session" "truthy (currentId triangle_session)"
    "currentRing (store triangle_session) (idString (currentId triangle_session))
       = Inr [Some (0, 0), Some (1, 1), Some (2, 0), Some (2, 0), Some (0, 0)]"
    "inClosingZone example_env (pointer (1 / 10) (1 / 10)) triangle_session"
    "closingPointIds triangle_session = [''ff'']"
    "''ff'' \<noteq> idString (currentId triangle_session)"
    "map_of (store triangle_session) ''ff'' \<noteq> None"
    by (simp_all add: handler_defs scene_defs)
  have mk: "map_of (store triangle_session) ''ff'' = Some (marker (0, 0))"
    by (simp add: scene_defs)
  have i: "idString (currentId triangle_session) = ''f''"
    by (simp add: handler_defs scene_defs)
  show ?thesis
    using closing_click_finalizes [OF h] h(1-5) mk
    by (simp add: i slice0_def entry_def)
qed

text \<open>
  Claim C1 as stated fails: in the triangle session (three committed vertices) one click
  on the start vertex, inside the closing hit-zone, already resets the count to 0,
  clears \<open>currentId\<close>, stores the finalized ring and removes the marker.
\<close>

theorem closing_click_resets_count:
  "currentCoordinate triangle_session = 3
   \<and> inClosingZone example_env (pointer 0 0) triangle_session
   \<and> onClick example_env (pointer 0 0) triangle_session =
       Inr (triangle_session\<lparr>
              store := [(''f'', polygonFeature [Some (0, 0), Some (1, 1), Some (2, 0), Some (0, 0)])],
              closingPointIds := [], currentCoordinate := 0, currentId := None\<rparr>)"
  by (simp add: handler_defs scene_defs Let_def)

text \<open>
  Claim C2, as amended. With at least one committed vertex, a click whose coordinate
  (after the snap step) is identical to the immediately preceding committed vertex
  leaves the whole state as it was, provided that in the Drawing state (three or more
  committed vertices) the pointer is outside the closing hit-zone.
\<close>

theorem repeated_click_is_noop:
  assumes "0 < currentCoordinate m"
    and "currentRing (store m) (idString (currentId m)) = Inr coords"
    and "entry coords (currentCoordinate m - 1) = Some previous"
    and "coordinatesIdentical env (clickedPoint env event m) previous"
    and "2 < currentCoordinate m \<longrightarrow> \<not> inClosingZone env event m"
  shows "onClick env event m = Inr m"
proof -
  consider "\<not> truthy (currentId m)" | "truthy (currentId m)" "currentCoordinate m = 1"
    | "truthy (currentId m)" "currentCoordinate m = 2" | "truthy (currentId m)" "2 < currentCoordinate m"
    using assms(1) by fastforce
  then show ?thesis
  proof cases
    case 1
    then show ?thesis using assms(1) by (simp add: onClick_def)
  next
    case 2
    then show ?thesis using assms
      by (simp add: onClick_def clickFirst_def identicalTo_def clickedPoint_def eventPosition_def)
  next
    case 3
    then show ?thesis using assms
      by (simp add: onClick_def clickSecond_def identicalTo_def clickedPoint_def eventPosition_def)
  next
    case 4
    then show ?thesis using assms
      by (simp add: onClick_def clickDrawing_def clickAdd_def inClosingZone_def Let_def
          identicalTo_def clickedPoint_def eventPosition_def)
  qed
qed

theorem repeated_click_is_noop_witness:
  "0 < currentCoordinate quad_session
   \<and> currentRing (store quad_session) (idString (currentId quad_session))
       = Inr [Some (0, 0), Some (1, 1), Some (2, 0), Some (3, 1), Some (3, 1), Some (0, 0)]
   \<and> entry [Some (0, 0), Some (1, 1), Some (2, 0), Some (3, 1), Some (3, 1), Some (0, 0)]
        (currentCoordinate quad_session - 1) = Some (3, 1)
   \<and> coordinatesIdentical example_env (clickedPoint example_env (pointer 3 1) quad_session) (3, 1)
   \<and> 2 < currentCoordinate quad_session
   \<and> \<not> inClosingZone example_env (pointer 3 1) quad_session
   \<and> onClick example_env (pointer 3 1) quad_session = Inr quad_session"
proof -
  have h: "0 < currentCoordinate quad_session"
    "currentRing (store quad_session) (idString (currentId quad_session))
       = Inr [Some (0, 0), Some (1, 1), Some (2, 0), Some (3, 1), Some (3, 1), Some (0, 0)]"
    "entry [Some (0, 0), Some (1, 1), Some (2, 0), Some (3, 1), Some (3, 1), Some (0, 0)]
        (currentCoordinate quad_session - 1) = Some (3, 1)"
    "coordinatesIdentical example_env (clickedPoint example_env (pointer 3 1) quad_session) (3, 1)"
    "2 < currentCoordinate quad_session \<longrightarrow> \<not> inClosingZone example_env (pointer 3 1) quad_session"
    by (simp_all add: handler_defs scene_defs)
  have more: "2 < currentCoordinate quad_session"
    "\<not> inClosingZone example_env (pointer 3 1) quad_session"
    by (simp_all add: handler_defs scene_defs)
  show ?thesis
    using repeated_click_is_noop [OF h] h(1-4) more by simp
qed

text \<open>
  Claim C2 as stated fails in the Drawing state: the closing test comes before the
  identity test. In the triangle session a click exactly on the preceding committed
  vertex (2,0) lies in the hit-zone of that vertex, and finalizes the polygon instead
  of being ignored.
\<close>

theorem repeated_click_in_zone_finalizes:
  "currentCoordinate triangle_session = 3
   \<and> currentRing (store triangle_session) (idString (currentId triangle_session))
       = Inr [Some (0, 0), Some (1, 1), Some (2, 0), Some (2, 0), Some (0, 0)]
   \<and> coordinatesIdentical example_env (clickedPoint example_env (pointer 2 0) triangle_session) (2, 0)
   \<and> onClick example_env (pointer 2 0) triangle_session \<noteq> Inr triangle_session
   \<and> onClick example_env (pointer 2 0) triangle_session =
       Inr (triangle_session\<lparr>
              store := [(''f'', polygonFeature [Some (0, 0), Some (1, 1), Some (2, 0), Some (0, 0)])],
              closingPointIds := [], currentCoordinate := 0, currentId := None\<rparr>)"
  by (simp add: handler_defs scene_defs Let_def)

text \<open>
  Claim C3. With snapping enabled and a snap resolver that suggests a replacement, every
  click is to use the replacement, the first click from Idle included. The first click
  does not: \<^verbatim>\<open>closestCoord\<close> is only computed when \<open>currentId\<close> is set, which it
  never is at Idle, so the override in the branch \<^verbatim>\<open>currentCoordinate === 0\<close> never
  fires. Here the resolver suggests (5,5) and the ring is created at the pointer's
  (1,1).
\<close>

theorem first_click_ignores_snap:
  "snappingEnabled snapping_idle
   \<and> currentCoordinate snapping_idle = 0
   \<and> getSnappableCoordinate snapping_env (pointer 1 1) ''f'' (store snapping_idle) = Some (5, 5)
   \<and> onClick snapping_env (pointer 1 1) snapping_idle =
       Inr (snapping_idle\<lparr>
              store := [(''f'', polygonFeature [Some (1, 1), Some (1, 1), Some (1, 1), Some (1, 1)])],
              currentId := Some ''f'', currentCoordinate := 1\<rparr>)"
  by (simp add: handler_defs scene_defs Let_def)

text \<open>
  Claim C4. In the Drawing state, for a click outside the closing hit-zone that does
  not repeat the preceding vertex and whose candidate ring the guard reports as
  self-intersecting: with \<open>allowSelfIntersections = False\<close> the click changes nothing;
  with \<open>allowSelfIntersections = True\<close> the same candidate ring is stored and the count
  is incremented.
\<close>

theorem self_intersection_guard:
  assumes drawing: "2 < currentCoordinate m" "truthy (currentId m)"
    and ring: "currentRing (store m) (idString (currentId m)) = Inr coords"
    and zone: "\<not> inClosingZone env event m"
    and prev: "entry coords (currentCoordinate m - 1) = Some previous"
              "\<not> coordinatesIdentical env (clickedPoint env event m) previous"
    and cand: "candidate = slice0 coords 1 @ [Some (clickedPoint env event m), entry coords 0]"
    and bad: "selfIntersects env [candidate]"
  shows "onClick env event (m\<lparr>allowSelfIntersections := False\<rparr>) = Inr (m\<lparr>allowSelfIntersections := False\<rparr>)
       \<and> (\<exists>st. onClick env event (m\<lparr>allowSelfIntersections := True\<rparr>) =
                 Inr (m\<lparr>allowSelfIntersections := True, store := st,
                        currentCoordinate := currentCoordinate m + 1\<rparr>)
               \<and> currentRing st (idString (currentId m)) = Inr candidate)"
proof -
  obtain f rs where f: "map_of (store m) (idString (currentId m)) = Some f"
    using currentRing_InrD [OF ring] by blast
  have add: "onClick env event (m\<lparr>allowSelfIntersections := b\<rparr>)
               = clickAdd env event coords (m\<lparr>allowSelfIntersections := b\<rparr>)" for b
    using drawing ring zone
    by (simp add: onClick_def clickDrawing_def inClosingZone_def Let_def)
  have no: "clickAdd env event coords (m\<lparr>allowSelfIntersections := False\<rparr>)
              = Inr (m\<lparr>allowSelfIntersections := False\<rparr>)"
    using drawing(1) prev bad
    by (simp add: clickAdd_def Let_def snapped_position clickedPoint_allow identicalTo_def cand)
  have yes: "clickAdd env event coords (m\<lparr>allowSelfIntersections := True\<rparr>) =
      Inr (m\<lparr>allowSelfIntersections := True,
             store := AList.update (idString (currentId m)) (f\<lparr>geometry := Polygon [candidate]\<rparr>) (store m),
             currentCoordinate := currentCoordinate m + 1\<rparr>)"
    using prev f
    by (simp add: clickAdd_def Let_def snapped_position clickedPoint_allow identicalTo_def cand)
  show ?thesis
    using add no yes currentRing_update_same by auto
qed

theorem self_intersection_guard_witness:
  "2 < currentCoordinate triangle_session
   \<and> truthy (currentId triangle_session)
   \<and> \<not> inClosingZone example_env (pointer 0 1) triangle_session
   \<and> \<not> coordinatesIdentical example_env (clickedPoint example_env (pointer 0 1) triangle_session) (2, 0)
   \<and> selfIntersects example_env
        [[Some (0, 0), Some (1, 1), Some (2, 0), Some (2, 0), Some (0, 1), Some (0, 0)]]
   \<and> onClick example_env (pointer 0 1) (triangle_session\<lparr>allowSelfIntersections := False\<rparr>)
       = Inr (triangle_session\<lparr>allowSelfIntersections := False\<rparr>)
   \<and> (\<exists>st. onClick example_env (pointer 0 1) (triangle_session\<lparr>allowSelfIntersections := True\<rparr>) =
              Inr (triangle_session\<lparr>allowSelfIntersections := True, store := st,
                     currentCoordinate := 4\<rparr>)
            \<and> currentRing st ''f''
                = Inr [Some (0, 0), Some (1, 1), Some (2, 0), Some (2, 0), Some (0, 1), Some (0, 0)])"
proof -
  let ?coords = "[Some (0, 0), Some (1, 1), Some (2, 0), Some (2, 0), Some (0, 0)] :: ring"
  let ?cand = "[Some (0, 0), Some (1, 1), Some (2, 0), Some (2, 0), Some (0, 1), Some (0, 0)] :: ring"
  have h: "2 < currentCoordinate triangle_session" "truthy (currentId triangle_session)"
    "currentRing (store triangle_session) (idString (currentId triangle_session)) = Inr ?coords"
    "\<not> inClosingZone example_env (pointer 0 1) triangle_session"
    "entry ?coords (currentCoordinate triangle_session - 1) = Some (2, 0)"
    "\<not> coordinatesIdentical example_env (clickedPoint example_env (pointer 0 1) triangle_session) (2, 0)"
    "?cand = slice0 ?coords 1 @ [Some (clickedPoint example_env (pointer 0 1) triangle_session), entry ?coords 0]"
    by (simp_all add: handler_defs scene_defs)
  have bad: "selfIntersects example_env [?cand]"
    by (simp add: scene_defs List.map_filter_simps)
  have i: "idString (currentId triangle_session) = ''f''" "currentCoordinate triangle_session = 3"
    by (simp_all add: handler_defs scene_defs)
  show ?thesis
    using self_intersection_guard [OF h bad] h(1,2,4,6) bad
    by (simp add: i)
qed

subsection \<open>Mouse moves\<close>

text \<open>
  Claim C9. A mouse move delivered while the session is Idle (no current feature id, or
  no committed vertex) changes nothing but the cursor: the store, the closing markers
  and every field of the session are as before, and the cursor is the crosshair.
\<close>

theorem idle_move_only_sets_cursor:
  assumes "\<not> truthy (currentId m) \<or> currentCoordinate m = 0"
  shows "onMouseMove env event m = Inr (m\<lparr>cursor := ''crosshair''\<rparr>)"
  using assms by (auto simp add: onMouseMove_def setCursor_def Let_def)

theorem idle_move_only_sets_cursor_witness:
  "currentCoordinate (idle_session\<lparr>cursor := ''unset''\<rparr>) = 0
   \<and> onMouseMove example_env (pointer 1 1) (idle_session\<lparr>cursor := ''unset''\<rparr>)
       = Inr idle_session"
proof -
  have idle: "currentCoordinate (idle_session\<lparr>cursor := ''unset''\<rparr>) = 0"
    by (simp add: scene_defs)
  then have "\<not> truthy (currentId (idle_session\<lparr>cursor := ''unset''\<rparr>))
      \<or> currentCoordinate (idle_session\<lparr>cursor := ''unset''\<rparr>) = 0"
    by simp
  from idle_move_only_sets_cursor [OF this, of example_env "pointer 1 1"] idle
  show ?thesis by (simp add: scene_defs)
qed

subsection \<open>Cancellation\<close>

text \<open>
  Claim C10. \<^verbatim>\<open>cleanUp\<close> always ends with \<open>currentId\<close> undefined and the count
  0, whatever the store calls do. When deleting the in-progress feature throws, the
  deletion of the closing markers, in the same \<^verbatim>\<open>try\<close> block, is skipped: the
  store and the marker ids are as before, so markers that were stored remain stored.
\<close>

theorem cleanUp_always_resets:
  "currentId (cleanUp m) = None \<and> currentCoordinate (cleanUp m) = 0
   \<and> (truthy (currentId m) \<and> store_delete [idString (currentId m)] (store m) = Inl e
        \<longrightarrow> cleanUp m = m\<lparr>currentId := None, currentCoordinate := 0\<rparr>
            \<and> store (cleanUp m) = store m
            \<and> closingPointIds (cleanUp m) = closingPointIds m)"
  by (simp add: cleanUp_def cleanUpTry_def)

theorem cleanUp_always_resets_witness:
  "truthy (currentId orphaned_session)
   \<and> store_delete [idString (currentId orphaned_session)] (store orphaned_session) = Inl NoSuchFeature
   \<and> currentId (cleanUp orphaned_session) = None
   \<and> currentCoordinate (cleanUp orphaned_session) = 0
   \<and> closingPointIds (cleanUp orphaned_session) = [''ff'']
   \<and> map_of (store (cleanUp orphaned_session)) ''ff'' = Some (marker (0, 0))"
proof -
  have h: "truthy (currentId orphaned_session)"
    "store_delete [idString (currentId orphaned_session)] (store orphaned_session) = Inl NoSuchFeature"
    by (simp_all add: truthy_def idString_def scene_defs)
  have before: "closingPointIds orphaned_session = [''ff'']"
    "map_of (store orphaned_session) ''ff'' = Some (marker (0, 0))"
    by (simp_all add: scene_defs)
  from cleanUp_always_resets [of orphaned_session NoSuchFeature] h before
  show ?thesis by simp
qed

text \<open>
  Claim C5. A cancel key is to delete the in-progress feature and any closing markers,
  reset the session, and swallow deletion failures so that a second cancel changes
  nothing. The session is reset, but when the deletion of the in-progress feature fails
  the markers are left behind, and it is the second cancel that removes them: in the
  orphaned session the marker is still stored after one cancel and gone after two.
\<close>

theorem cancel_twice_differs:
  "key escape = cancel (keyEvents orphaned_session)
   \<and> map_of (store (onKeyUp escape orphaned_session)) ''ff'' = Some (marker (0, 0))
   \<and> closingPointIds (onKeyUp escape orphaned_session) = [''ff'']
   \<and> store (onKeyUp escape (onKeyUp escape orphaned_session)) = []
   \<and> onKeyUp escape (onKeyUp escape orphaned_session) \<noteq> onKeyUp escape orphaned_session"
  by (simp add: handler_defs scene_defs)

subsection \<open>Configuration\<close>

lemma config_updateCurrent:
  "updateCurrent coords m = Inr m' \<Longrightarrow> configuration m' = configuration m"
  by (auto simp add: updateCurrent_def configuration_def split: sum.splits)

lemma config_closingPoints_update:
  "closingPoints_update coords m = Inr m' \<Longrightarrow> configuration m' = configuration m"
  by (auto simp add: closingPoints_update_def configuration_def split: sum.splits)

lemma config_closingPoints_delete:
  "closingPoints_delete m = Inr m' \<Longrightarrow> configuration m' = configuration m"
  by (auto simp add: closingPoints_delete_def configuration_def split: sum.splits if_splits)

lemma config_closingPoints_create:
  "configuration (closingPoints_create env coords kind m) = configuration m"
  by (simp add: closingPoints_create_def configuration_def Let_def)

lemma config_storePreview:
  "storePreview coords m = Inr m' \<Longrightarrow> configuration m' = configuration m"
  by (auto simp add: storePreview_def split: sum.splits if_splits
      dest!: config_updateCurrent config_closingPoints_update)

lemma config_field_updates:
  "configuration (m\<lparr>cursor := c\<rparr>) = configuration m"
  "configuration (m\<lparr>isClosed := b\<rparr>) = configuration m"
  "configuration (m\<lparr>currentCoordinate := n\<rparr>) = configuration m"
  "configuration (m\<lparr>currentId := i\<rparr>) = configuration m"
  "configuration (m\<lparr>store := st\<rparr>) = configuration m"
  "configuration (m\<lparr>closingPointIds := ids\<rparr>) = configuration m"
  by (simp_all add: configuration_def)

lemma config_onMouseMove:
  "onMouseMove env event m = Inr m' \<Longrightarrow> configuration m' = configuration m"
  by (auto simp add: onMouseMove_def setCursor_def Let_def config_field_updates
      split: sum.splits if_splits dest!: config_storePreview)

lemma config_clickIdle:
  "clickIdle env event m = Inr m' \<Longrightarrow> configuration m' = configuration m"
  by (auto simp add: clickIdle_def Let_def configuration_def)

lemma config_clickFirst:
  "clickFirst env event m = Inr m' \<Longrightarrow> configuration m' = configuration m"
  by (auto simp add: clickFirst_def Let_def config_field_updates
      split: sum.splits if_splits dest!: config_updateCurrent)

lemma config_clickSecond:
  "clickSecond env event m = Inr m' \<Longrightarrow> configuration m' = configuration m"
  by (auto simp add: clickSecond_def Let_def config_field_updates config_closingPoints_create
      split: sum.splits if_splits dest!: config_updateCurrent)

lemma config_clickClose:
  "clickClose coords m = Inr m' \<Longrightarrow> configuration m' = configuration m"
  by (auto simp add: clickClose_def config_field_updates
      split: sum.splits dest!: config_updateCurrent config_closingPoints_delete)

lemma config_clickAdd:
  "clickAdd env event coords m = Inr m' \<Longrightarrow> configuration m' = configuration m"
  by (auto simp add: clickAdd_def Let_def configuration_def split: sum.splits if_splits)

lemma config_onClick:
  "onClick env event m = Inr m' \<Longrightarrow> configuration m' = configuration m"
  by (auto simp add: onClick_def clickDrawing_def Let_def
      split: sum.splits if_splits
      dest: config_clickIdle config_clickFirst config_clickSecond config_clickClose config_clickAdd)

lemma config_cleanUp: "configuration (cleanUp m) = configuration m"
  by (auto simp add: cleanUp_def cleanUpTry_def config_field_updates
      split: sum.splits dest!: config_closingPoints_delete)

lemma config_onKeyUp: "configuration (onKeyUp event m) = configuration m"
  by (simp add: onKeyUp_def config_cleanUp)

lemma config_handle:
  "handle env i m = Inr m' \<Longrightarrow> configuration m' = configuration m"
  by (cases i)
     (auto simp add: handle_def config_onKeyUp config_cleanUp config_field_updates
        onKeyDown_def onDragStart_def onDrag_def onDragEnd_def start_def stop_def setCursor_def
        dest: config_onClick config_onMouseMove)

lemma config_run:
  "run env inputs m = Inr m' \<Longrightarrow> configuration m' = configuration m"
proof (induction inputs arbitrary: m)
  case Nil
  then show ?case by simp
next
  case (Cons i inputs)
  then obtain m1 where "handle env i m = Inr m1" "run env inputs m1 = Inr m'"
    by (auto split: sum.splits)
  with Cons.IH [of m1] config_handle [of env i m m1] show ?case by simp
qed

text \<open>
  Claim C8. Constructed without options, the mode allows self-intersections, has
  snapping disabled and cancels on the key \<^verbatim>\<open>"Escape"\<close>; each of the three
  defaults also applies when options are given and that option is omitted. No handler
  changes the configuration: it is the same after any sequence of clicks, mouse moves and
  key events.
\<close>

theorem default_configuration:
  "configuration (constructor None st cur) = (True, False, \<lparr>cancel = ''Escape''\<rparr>)
   \<and> (opt_allowSelfIntersections os = None \<longrightarrow>
        allowSelfIntersections (constructor (Some os) st cur) = True)
   \<and> (opt_snapping os = None \<longrightarrow> snappingEnabled (constructor (Some os) st cur) = False)
   \<and> (opt_keyEvents os = None \<longrightarrow>
        keyEvents (constructor (Some os) st cur) = \<lparr>cancel = ''Escape''\<rparr>)
   \<and> (run env inputs m = Inr m' \<longrightarrow> configuration m' = configuration m)"
proof -
  have "configuration (constructor None st cur) = (True, False, \<lparr>cancel = ''Escape''\<rparr>)"
    by (simp add: constructor_def configuration_def)
  moreover have "opt_allowSelfIntersections os = None \<longrightarrow>
      allowSelfIntersections (constructor (Some os) st cur) = True"
    and "opt_snapping os = None \<longrightarrow> snappingEnabled (constructor (Some os) st cur) = False"
    and "opt_keyEvents os = None \<longrightarrow>
      keyEvents (constructor (Some os) st cur) = \<lparr>cancel = ''Escape''\<rparr>"
    by (simp_all add: constructor_def)
  moreover have "run env inputs m = Inr m' \<longrightarrow> configuration m' = configuration m"
    using config_run by blast
  ultimately show ?thesis by blast
qed

lemma scenario_run:
  "run example_env [Click (pointer 0 0), Move (pointer 1 1), Click (pointer 1 1), Click (pointer 2 0)]
     idle_session = Inr triangle_session"
  by (simp add: handle_def handler_defs scene_defs Let_def)

theorem default_configuration_witness:
  "configuration idle_session = (True, False, \<lparr>cancel = ''Escape''\<rparr>)
   \<and> opt_allowSelfIntersections no_options = None
   \<and> allowSelfIntersections (constructor (Some no_options) [] ''crosshair'') = True
   \<and> opt_snapping no_options = None
   \<and> snappingEnabled (constructor (Some no_options) [] ''crosshair'') = False
   \<and> opt_keyEvents no_options = None
   \<and> keyEvents (constructor (Some no_options) [] ''crosshair'') = \<lparr>cancel = ''Escape''\<rparr>
   \<and> run example_env [Click (pointer 0 0), Move (pointer 1 1), Click (pointer 1 1), Click (pointer 2 0)]
        idle_session = Inr triangle_session
   \<and> configuration triangle_session = configuration idle_session"
  using default_configuration [of "[]" "''crosshair''" no_options example_env
      "[Click (pointer 0 0), Move (pointer 1 1), Click (pointer 1 1), Click (pointer 2 0)]"
      idle_session triangle_session] scenario_run
  by (simp add: no_options_def idle_session_def)


subsection \<open>The ring stays closed\<close>

text \<open>The shape \<open>wellFormed\<close> holds after construction and is kept by every handler;
  from a well-formed session no handler throws.\<close>

lemma wellFormed_idle:
  "currentCoordinate m = 0 \<Longrightarrow> wellFormed m = (currentId m = None \<and> closingPointIds m = [])"
  by (simp add: wellFormed_def)

lemma wellFormedI:
  assumes "currentCoordinate m \<noteq> 0" "truthy (currentId m)"
    and "currentRing (store m) (idString (currentId m)) = Inr coords"
    and "length coords = (if currentCoordinate m = 1 then 4 else currentCoordinate m + 2)"
    and "list_all (\<lambda>c. c \<noteq> None) coords" "closedRing coords"
    and "currentCoordinate m < 3 \<Longrightarrow> closingPointIds m = []"
    and "\<not> currentCoordinate m < 3 \<Longrightarrow>
           \<exists>j. closingPointIds m = [j] \<and> j \<noteq> idString (currentId m) \<and> map_of (store m) j \<noteq> None"
  shows "wellFormed m"
  using assms by (auto simp add: wellFormed_def)

lemma wellFormedD:
  assumes "wellFormed m" "currentCoordinate m \<noteq> 0"
  shows "\<exists>coords f.
    truthy (currentId m)
    \<and> currentRing (store m) (idString (currentId m)) = Inr coords
    \<and> map_of (store m) (idString (currentId m)) = Some f
    \<and> length coords = (if currentCoordinate m = 1 then 4 else currentCoordinate m + 2)
    \<and> list_all (\<lambda>c. c \<noteq> None) coords \<and> closedRing coords
    \<and> (currentCoordinate m < 3 \<longrightarrow> closingPointIds m = [])
    \<and> (\<not> currentCoordinate m < 3 \<longrightarrow>
           (\<exists>j mk. closingPointIds m = [j] \<and> j \<noteq> idString (currentId m) \<and> map_of (store m) j = Some mk))"
proof -
  from assms obtain coords where c: "truthy (currentId m)"
    "currentRing (store m) (idString (currentId m)) = Inr coords"
    "length coords = (if currentCoordinate m = 1 then 4 else currentCoordinate m + 2)"
    "list_all (\<lambda>c. c \<noteq> None) coords" "closedRing coords"
    by (simp add: wellFormed_def split: sum.splits)
  from assms have ids: "currentCoordinate m < 3 \<longrightarrow> closingPointIds m = []"
    "\<not> currentCoordinate m < 3 \<longrightarrow>
           (\<exists>j mk. closingPointIds m = [j] \<and> j \<noteq> idString (currentId m) \<and> map_of (store m) j = Some mk)"
    by (auto simp add: wellFormed_def split: list.splits if_splits)
  from currentRing_InrD [OF c(2)] obtain f where "map_of (store m) (idString (currentId m)) = Some f"
    by blast
  with c ids show ?thesis by blast
qed

lemma wf_constructor: "wellFormed (constructor opts st cur)"
  by (simp add: wellFormed_def constructor_def)

lemma wf_clickIdle:
  assumes "freshIds env" "wellFormed m" "currentCoordinate m = 0"
  shows "\<exists>m'. clickIdle env event m = Inr m' \<and> wellFormed m'"
proof -
  let ?i = "assignId env (store m)"
  let ?p = "Some (clickedPoint env event m)"
  have fresh: "?i \<noteq> []" using assms(1) by (simp add: freshIds_def)
  have ids: "closingPointIds m = []" using assms(2,3) by (simp add: wellFormed_idle)
  have eq: "clickIdle env event m =
      Inr (m\<lparr>store := AList.update ?i (polygonFeature [?p, ?p, ?p, ?p]) (store m),
             currentId := Some ?i, currentCoordinate := 1\<rparr>)"
    using assms(3) by (simp add: clickIdle_def Let_def snapped_position polygonFeature_def)
  have "wellFormed (m\<lparr>store := AList.update ?i (polygonFeature [?p, ?p, ?p, ?p]) (store m),
             currentId := Some ?i, currentCoordinate := 1\<rparr>)"
    by (rule wellFormedI [where coords = "[?p, ?p, ?p, ?p]"])
       (simp_all add: truthy_def idString_def fresh polygon_ring_update closedRing_def ids)
  with eq show ?thesis by simp
qed


lemma wf_clickFirst:
  assumes wf: "wellFormed m" and one: "currentCoordinate m = 1"
  shows "\<exists>m'. clickFirst env event m = Inr m' \<and> wellFormed m'"
proof -
  from wellFormedD [OF wf] one obtain coords f where c:
    "truthy (currentId m)"
    "currentRing (store m) (idString (currentId m)) = Inr coords"
    "map_of (store m) (idString (currentId m)) = Some f"
    "length coords = 4" "list_all (\<lambda>c. c \<noteq> None) coords"
    "closingPointIds m = []"
    by fastforce
  obtain c0 where c0: "entry coords 0 = Some c0"
    using entry_defined [OF c(5), of 0] c(4) by auto
  let ?p = "Some (clickedPoint env event m)"
  let ?ring = "[Some c0, ?p, ?p, Some c0]"
  show ?thesis
  proof (cases "coordinatesIdentical env (clickedPoint env event m) c0")
    case True
    then have "clickFirst env event m = Inr m"
      using c(2) c0 by (simp add: clickFirst_def Let_def snapped_position identicalTo_def)
    with wf show ?thesis by simp
  next
    case False
    let ?m' = "m\<lparr>store := AList.update (idString (currentId m)) (f\<lparr>geometry := Polygon [?ring]\<rparr>) (store m),
                   currentCoordinate := 2\<rparr>"
    have eq: "clickFirst env event m = Inr ?m'"
      using False c(2) c0 one
      by (simp add: clickFirst_def Let_def snapped_position identicalTo_def updateCurrent_ok [OF c(3)])
    have "wellFormed ?m'"
      by (rule wellFormedI [where coords = ?ring])
         (simp_all add: c(1) c(6) currentRing_update_same closedRing_def)
    with eq show ?thesis by simp
  qed
qed

lemma wf_clickSecond:
  assumes fresh: "freshIds env" and wf: "wellFormed m" and two: "currentCoordinate m = 2"
  shows "\<exists>m'. clickSecond env event m = Inr m' \<and> wellFormed m'"
proof -
  from wellFormedD [OF wf] two obtain coords f where c:
    "truthy (currentId m)"
    "currentRing (store m) (idString (currentId m)) = Inr coords"
    "map_of (store m) (idString (currentId m)) = Some f"
    "length coords = 4" "list_all (\<lambda>c. c \<noteq> None) coords"
    by fastforce
  obtain c0 where c0: "entry coords 0 = Some c0"
    using entry_defined [OF c(5), of 0] c(4) by auto
  obtain c1 where c1: "entry coords 1 = Some c1"
    using entry_defined [OF c(5), of 1] c(4) by auto
  let ?i = "idString (currentId m)"
  let ?p = "Some (clickedPoint env event m)"
  let ?ring = "[Some c0, Some c1, ?p, ?p, Some c0]"
  show ?thesis
  proof (cases "coordinatesIdentical env (clickedPoint env event m) c1")
    case True
    then have "clickSecond env event m = Inr m"
      using c(2) c1 by (simp add: clickSecond_def Let_def snapped_position identicalTo_def)
    with wf show ?thesis by simp
  next
    case False
    let ?j = "assignId env (store m)"
    let ?mk = "\<lparr>geometry = Point (Some c0), modeProperty = ''polygon''\<rparr>"
    let ?st1 = "AList.update ?j ?mk (store m)"
    let ?m' = "m\<lparr>closingPointIds := [?j],
                   store := AList.update ?i (f\<lparr>geometry := Polygon [?ring]\<rparr>) ?st1,
                   currentCoordinate := 3\<rparr>"
    have "map_of (store m) ?j = None"
      using fresh by (simp add: freshIds_def)
    then have j: "?j \<noteq> ?i"
      using c(3) by auto
    then have f1: "map_of ?st1 ?i = Some f"
      using c(3) by (simp add: update_conv')
    have eq: "clickSecond env event m = Inr ?m'"
      using False c(2) c0 c1 two f1
      by (simp add: clickSecond_def Let_def snapped_position identicalTo_def
          closingPoints_create_def updateCurrent_def)
    have "wellFormed ?m'"
      by (rule wellFormedI [where coords = ?ring])
         (simp_all add: c(1) currentRing_update_same closedRing_def j update_conv')
    with eq show ?thesis by simp
  qed
qed


lemma closed_slice2:
  assumes "3 \<le> length coords" "list_all (\<lambda>c. c \<noteq> None) coords"
  shows "closedRing (slice0 coords 2 @ [x, entry coords 0])"
    and "list_all (\<lambda>c. c \<noteq> None) (slice0 coords 2 @ [Some p, entry coords 0])"
    and "list_all (\<lambda>c. c \<noteq> None) (slice0 coords 2 @ [entry coords 0, entry coords 0])"
    and "length (slice0 coords 2 @ [x, y]) = length coords"
proof -
  obtain a b c rest where coords: "coords = a # b # c # rest"
    using assms(1) by (metis Suc_le_length_iff numeral_3_eq_3)
  show "closedRing (slice0 coords 2 @ [x, entry coords 0])"
    by (simp add: coords closedRing_def slice0_def entry_def)
  have "list_all (\<lambda>c. c \<noteq> None) (take (length coords - 2) coords)"
    using assms(2) by (simp add: list_all_iff) (meson in_set_takeD)
  moreover have "entry coords 0 \<noteq> None"
    using assms(2) by (simp add: coords entry_def)
  ultimately show "list_all (\<lambda>c. c \<noteq> None) (slice0 coords 2 @ [Some p, entry coords 0])"
    and "list_all (\<lambda>c. c \<noteq> None) (slice0 coords 2 @ [entry coords 0, entry coords 0])"
    by (simp_all add: slice0_def)
  show "length (slice0 coords 2 @ [x, y]) = length coords"
    using assms(1) by (simp add: slice0_def)
qed

lemma closed_slice1:
  assumes "2 \<le> length coords" "list_all (\<lambda>c. c \<noteq> None) coords"
  shows "closedRing (slice0 coords 1 @ [x, entry coords 0])"
    and "list_all (\<lambda>c. c \<noteq> None) (slice0 coords 1 @ [Some p, entry coords 0])"
    and "length (slice0 coords 1 @ [x, y]) = length coords + 1"
proof -
  obtain a b rest where coords: "coords = a # b # rest"
    using assms(1) by (metis Suc_le_length_iff numeral_2_eq_2)
  show "closedRing (slice0 coords 1 @ [x, entry coords 0])"
    by (simp add: coords closedRing_def slice0_def entry_def)
  have "list_all (\<lambda>c. c \<noteq> None) (take (length coords - 1) coords)"
    using assms(2) by (simp add: list_all_iff) (meson in_set_takeD)
  moreover have "entry coords 0 \<noteq> None"
    using assms(2) by (simp add: coords entry_def)
  ultimately show "list_all (\<lambda>c. c \<noteq> None) (slice0 coords 1 @ [Some p, entry coords 0])"
    by (simp_all add: slice0_def)
  show "length (slice0 coords 1 @ [x, y]) = length coords + 1"
    using assms(1) by (simp add: slice0_def)
qed

lemma wf_clickDrawing:
  assumes wf: "wellFormed m" and three: "2 < currentCoordinate m"
  shows "\<exists>m'. clickDrawing env event m = Inr m' \<and> wellFormed m'"
proof -
  from wellFormedD [OF wf] three obtain coords f j mk where c:
    "truthy (currentId m)"
    "currentRing (store m) (idString (currentId m)) = Inr coords"
    "map_of (store m) (idString (currentId m)) = Some f"
    "length coords = currentCoordinate m + 2" "list_all (\<lambda>c. c \<noteq> None) coords"
    "closingPointIds m = [j]" "j \<noteq> idString (currentId m)" "map_of (store m) j = Some mk"
    by fastforce
  let ?i = "idString (currentId m)"
  show ?thesis
  proof (cases "inClosingZone env event m")
    case True
    let ?st1 = "AList.update ?i (f\<lparr>geometry := Polygon [slice0 coords 2 @ [entry coords 0]]\<rparr>) (store m)"
    let ?m' = "m\<lparr>store := AList.delete j ?st1, closingPointIds := [],
                   currentCoordinate := 0, currentId := None\<rparr>"
    have "map_of ?st1 j = Some mk"
      using c(7,8) by (simp add: update_conv')
    then have "clickClose coords m = Inr ?m'"
      using c(6) by (simp add: clickClose_def updateCurrent_ok [OF c(3)] closingPoints_delete_def)
    then have eq: "clickDrawing env event m = Inr ?m'"
      using c(2) True by (simp add: clickDrawing_def inClosingZone_def Let_def)
    have "wellFormed ?m'"
      by (simp add: wellFormed_def)
    with eq show ?thesis by simp
  next
    case False
    have step: "clickDrawing env event m = clickAdd env event coords m"
      using c(2) False by (simp add: clickDrawing_def inClosingZone_def Let_def)
    have "currentCoordinate m - 1 < length coords"
      using c(4) by arith
    then obtain previous where previous: "entry coords (currentCoordinate m - 1) = Some previous"
      using entry_defined [OF c(5)] by blast
    let ?cand = "slice0 coords 1 @ [Some (clickedPoint env event m), entry coords 0]"
    let ?m' = "m\<lparr>store := AList.update ?i (f\<lparr>geometry := Polygon [?cand]\<rparr>) (store m),
                   currentCoordinate := currentCoordinate m + 1\<rparr>"
    have "clickAdd env event coords m = Inr m \<or> clickAdd env event coords m = Inr ?m'"
      using previous c(3) by (simp add: clickAdd_def Let_def snapped_position identicalTo_def)
    moreover have "wellFormed ?m'"
    proof (rule wellFormedI [where coords = ?cand])
      show "length ?cand = (if currentCoordinate ?m' = 1 then 4 else currentCoordinate ?m' + 2)"
        using three c(4) by (simp add: slice0_def)
      show "list_all (\<lambda>c. c \<noteq> None) ?cand"
        using three c(4,5) by (intro closed_slice1) simp_all
      show "closedRing ?cand"
        using three c(4,5) by (intro closed_slice1) simp_all
      show "\<not> currentCoordinate ?m' < 3 \<Longrightarrow>
           \<exists>j. closingPointIds ?m' = [j] \<and> j \<noteq> idString (currentId ?m') \<and> map_of (store ?m') j \<noteq> None"
        using c(6,7,8) by (simp add: update_conv')
    qed (use three c(1) in \<open>simp_all add: currentRing_update_same\<close>)
    ultimately show ?thesis using step wf by auto
  qed
qed

lemma wf_onClick:
  assumes "freshIds env" "wellFormed m"
  shows "\<exists>m'. onClick env event m = Inr m' \<and> wellFormed m'"
proof -
  consider "currentCoordinate m = 0" | "currentCoordinate m = 1" | "currentCoordinate m = 2"
    | "2 < currentCoordinate m" by fastforce
  then show ?thesis
  proof cases
    case 1
    then show ?thesis using wf_clickIdle [OF assms] by (simp add: onClick_def)
  next
    case 2
    moreover from wellFormedD [OF assms(2)] 2 have "truthy (currentId m)" by simp
    ultimately show ?thesis using wf_clickFirst [OF assms(2)] by (simp add: onClick_def)
  next
    case 3
    moreover from wellFormedD [OF assms(2)] 3 have "truthy (currentId m)" by simp
    ultimately show ?thesis using wf_clickSecond [OF assms] by (simp add: onClick_def)
  next
    case 4
    moreover from wellFormedD [OF assms(2)] 4 have "truthy (currentId m)" by simp
    ultimately show ?thesis using wf_clickDrawing [OF assms(2)] by (simp add: onClick_def)
  qed
qed


lemma storePreview_no_markers:
  assumes "map_of (store m) (idString (currentId m)) = Some f" "closingPointIds m = []"
  shows "storePreview coords m =
           Inr (m\<lparr>store := AList.update (idString (currentId m)) (f\<lparr>geometry := Polygon [coords]\<rparr>) (store m)\<rparr>)"
  using assms by (simp add: storePreview_def updateCurrent_def)

lemma storePreview_marker:
  assumes "map_of (store m) (idString (currentId m)) = Some f"
    and "closingPointIds m = [j]" "j \<noteq> idString (currentId m)" "map_of (store m) j = Some mk"
  shows "storePreview coords m =
           Inr (m\<lparr>store := AList.update j (mk\<lparr>geometry := Point (entry coords 0)\<rparr>)
                    (AList.update (idString (currentId m)) (f\<lparr>geometry := Polygon [coords]\<rparr>) (store m))\<rparr>)"
  using assms by (simp add: storePreview_def updateCurrent_def closingPoints_update_def update_conv')

lemma wf_preview:
  assumes wf: "wellFormed m" and nz: "currentCoordinate m \<noteq> 0"
    and len: "length coords = (if currentCoordinate m = 1 then 4 else currentCoordinate m + 2)"
    and ok: "list_all (\<lambda>c. c \<noteq> None) coords" "closedRing coords"
    and same: "currentCoordinate m' = currentCoordinate m" "currentId m' = currentId m"
      "closingPointIds m' = closingPointIds m" "store m' = store m"
  shows "\<exists>m''. storePreview coords m' = Inr m'' \<and> wellFormed m''"
proof -
  from wellFormedD [OF wf nz] obtain f where c:
    "truthy (currentId m)" "map_of (store m) (idString (currentId m)) = Some f"
    "currentCoordinate m < 3 \<longrightarrow> closingPointIds m = []"
    "\<not> currentCoordinate m < 3 \<longrightarrow>
       (\<exists>j mk. closingPointIds m = [j] \<and> j \<noteq> idString (currentId m) \<and> map_of (store m) j = Some mk)"
    by blast
  let ?i = "idString (currentId m)"
  let ?st1 = "AList.update ?i (f\<lparr>geometry := Polygon [coords]\<rparr>) (store m)"
  show ?thesis
  proof (cases "currentCoordinate m < 3")
    case True
    then have ids: "closingPointIds m = []" using c(3) by simp
    have eq: "storePreview coords m' = Inr (m'\<lparr>store := ?st1\<rparr>)"
      using storePreview_no_markers [of m' f coords] c(2) ids same by simp
    have "wellFormed (m'\<lparr>store := ?st1\<rparr>)"
      by (rule wellFormedI [where coords = coords])
         (use True nz len ok c(1) ids same in \<open>simp_all add: currentRing_update_same\<close>)
    with eq show ?thesis by simp
  next
    case False
    then obtain j mk where j: "closingPointIds m = [j]" "j \<noteq> ?i" "map_of (store m) j = Some mk"
      using c(4) by blast
    let ?st2 = "AList.update j (mk\<lparr>geometry := Point (entry coords 0)\<rparr>) ?st1"
    have eq: "storePreview coords m' = Inr (m'\<lparr>store := ?st2\<rparr>)"
      using storePreview_marker [of m' f j mk coords] c(2) j same by simp
    have "wellFormed (m'\<lparr>store := ?st2\<rparr>)"
      by (rule wellFormedI [where coords = coords])
         (use False nz len ok c(1) j same in
           \<open>simp_all add: currentRing_update_other currentRing_update_same update_conv'\<close>)
    with eq show ?thesis by simp
  qed
qed

lemma wf_onMouseMove:
  assumes wf: "wellFormed m"
  shows "\<exists>m'. onMouseMove env event m = Inr m' \<and> wellFormed m'"
proof (cases "currentCoordinate m = 0")
  case True
  then have "onMouseMove env event m = Inr (m\<lparr>cursor := ''crosshair''\<rparr>)"
    by (simp add: onMouseMove_def setCursor_def)
  moreover have "wellFormed (m\<lparr>cursor := ''crosshair''\<rparr>)"
    using wf True by (simp add: wellFormed_def)
  ultimately show ?thesis by simp
next
  case nz: False
  from wellFormedD [OF wf nz] obtain coords where c:
    "truthy (currentId m)"
    "currentRing (store m) (idString (currentId m)) = Inr coords"
    "length coords = (if currentCoordinate m = 1 then 4 else currentCoordinate m + 2)"
    "list_all (\<lambda>c. c \<noteq> None) coords"
    by blast
  have len3: "3 \<le> length coords" using c(3) nz by (simp split: if_splits)
  have "0 < length coords" "1 < length coords"
    using len3 by linarith+
  then obtain c0 c1 where c0: "entry coords 0 = Some c0" and c1: "entry coords 1 = Some c1"
    using entry_defined [OF c(4)] by blast
  have pre: "\<exists>m''. storePreview ring' m' = Inr m'' \<and> wellFormed m''"
    if "length ring' = (if currentCoordinate m = 1 then 4 else currentCoordinate m + 2)"
      "list_all (\<lambda>c. c \<noteq> None) ring'" "closedRing ring'"
      "currentCoordinate m' = currentCoordinate m" "currentId m' = currentId m"
      "closingPointIds m' = closingPointIds m" "store m' = store m" for ring' m'
    using wf_preview [OF wf nz that] .
  consider "currentCoordinate m = 1" | "currentCoordinate m = 2" | "2 < currentCoordinate m"
    using nz by fastforce
  then show ?thesis
  proof cases
    case 1
    then show ?thesis
      using c(1,2) c0
      by (auto simp add: onMouseMove_def setCursor_def Let_def closedRing_def intro!: pre)
  next
    case 2
    then show ?thesis
      using c(1,2) c0 c1
      by (auto simp add: onMouseMove_def setCursor_def Let_def closedRing_def intro!: pre)
  next
    case 3
    have len: "length (slice0 coords 2 @ [x, y]) = currentCoordinate m + 2" for x y
      using c(3) 3 by (simp add: slice0_def)
    from 3 show ?thesis
      using c(1,2) len closed_slice2(1-3) [OF len3 c(4)]
      by (auto simp add: onMouseMove_def setCursor_def Let_def intro!: pre)
  qed
qed

lemma wf_onKeyUp:
  assumes wf: "wellFormed m"
  shows "wellFormed (onKeyUp event m)"
proof (cases "key event = cancel (keyEvents m)")
  case False
  then show ?thesis using wf by (simp add: onKeyUp_def)
next
  case True
  have "closingPointIds (cleanUpTry m) = []"
  proof (cases "currentCoordinate m = 0")
    case True
    then show ?thesis using wf
      by (simp add: wellFormed_def cleanUpTry_def truthy_def idString_def)
  next
    case nz: False
    from wellFormedD [OF wf nz] obtain f where c:
      "truthy (currentId m)" "map_of (store m) (idString (currentId m)) = Some f"
      "currentCoordinate m < 3 \<longrightarrow> closingPointIds m = []"
      "\<not> currentCoordinate m < 3 \<longrightarrow>
         (\<exists>j mk. closingPointIds m = [j] \<and> j \<noteq> idString (currentId m) \<and> map_of (store m) j = Some mk)"
      by blast
    show ?thesis
    proof (cases "currentCoordinate m < 3")
      case True
      then show ?thesis using c by (simp add: cleanUpTry_def)
    next
      case False
      then obtain j mk where "closingPointIds m = [j]" "j \<noteq> idString (currentId m)"
        "map_of (store m) j = Some mk" using c(4) by blast
      then show ?thesis using c(1,2)
        by (simp add: cleanUpTry_def closingPoints_delete_def delete_conv')
    qed
  qed
  then show ?thesis using True by (simp add: onKeyUp_def cleanUp_def wellFormed_def)
qed

text \<open>On a well-formed session the cancel key does all of its work: the polygon and the
  closing marker are gone from the store, the session is Idle, and a second cancel
  changes nothing.\<close>

lemma cancel_on_well_formed:
  assumes wf: "wellFormed m" and esc: "key event = cancel (keyEvents m)"
  shows "currentId (onKeyUp event m) = None
       \<and> currentCoordinate (onKeyUp event m) = 0
       \<and> closingPointIds (onKeyUp event m) = []
       \<and> (truthy (currentId m) \<longrightarrow> map_of (store (onKeyUp event m)) (idString (currentId m)) = None)
       \<and> list_all (\<lambda>j. map_of (store (onKeyUp event m)) j = None) (closingPointIds m)
       \<and> onKeyUp event (onKeyUp event m) = onKeyUp event m"
proof (cases "currentCoordinate m = 0")
  case True
  then have "currentId m = None" "closingPointIds m = []"
    using wf by (simp_all add: wellFormed_def)
  then show ?thesis using esc True
    by (simp add: onKeyUp_def cleanUp_def cleanUpTry_def truthy_def idString_def)
next
  case nz: False
  from wellFormedD [OF wf nz] obtain f where c:
    "truthy (currentId m)" "map_of (store m) (idString (currentId m)) = Some f"
    "currentCoordinate m < 3 \<longrightarrow> closingPointIds m = []"
    "\<not> currentCoordinate m < 3 \<longrightarrow>
       (\<exists>j mk. closingPointIds m = [j] \<and> j \<noteq> idString (currentId m) \<and> map_of (store m) j = Some mk)"
    by blast
  show ?thesis
  proof (cases "currentCoordinate m < 3")
    case True
    then have "closingPointIds m = []" using c(3) by simp
    then show ?thesis using esc c(1,2)
      by (simp add: onKeyUp_def cleanUp_def cleanUpTry_def delete_conv' truthy_def [of None] idString_def [of None])
  next
    case False
    then obtain j mk where "closingPointIds m = [j]" "j \<noteq> idString (currentId m)"
      "map_of (store m) j = Some mk" using c(4) by blast
    then show ?thesis using esc c(1,2)
      by (simp add: onKeyUp_def cleanUp_def cleanUpTry_def closingPoints_delete_def delete_conv'
          truthy_def [of None] idString_def [of None])
  qed
qed

lemma wf_cursor: "wellFormed (m\<lparr>cursor := c\<rparr>) = wellFormed m"
  by (simp add: wellFormed_def cong: sum.case_cong list.case_cong)

lemma wf_cleanUp:
  assumes wf: "wellFormed m"
  shows "wellFormed (cleanUp m)"
proof -
  have "wellFormed (onKeyUp \<lparr>key = cancel (keyEvents m)\<rparr> m)"
    using wf by (rule wf_onKeyUp)
  then show ?thesis by (simp add: onKeyUp_def)
qed

lemma wf_handle:
  assumes "freshIds env" "wellFormed m"
  shows "\<exists>m'. handle env i m = Inr m' \<and> wellFormed m'"
proof (cases i)
  case (Click event)
  then show ?thesis using wf_onClick [OF assms] by (simp add: handle_def)
next
  case (Move event)
  then show ?thesis using wf_onMouseMove [OF assms(2)] by (simp add: handle_def)
next
  case (KeyUp event)
  then show ?thesis using wf_onKeyUp [OF assms(2)] by (simp add: handle_def)
next
  case Stop
  have "wellFormed (m\<lparr>cursor := ''unset''\<rparr>)"
    using assms(2) by (simp add: wf_cursor)
  then show ?thesis using Stop wf_cleanUp by (simp add: handle_def stop_def setCursor_def)
qed (use assms(2) in \<open>simp_all add: handle_def onKeyDown_def onDragStart_def onDrag_def
      onDragEnd_def start_def setCursor_def wf_cursor\<close>)

lemma wf_run:
  assumes "freshIds env"
  shows "wellFormed m \<Longrightarrow> \<exists>m'. run env inputs m = Inr m' \<and> wellFormed m'"
proof (induction inputs arbitrary: m)
  case Nil
  then show ?case by simp
next
  case (Cons i inputs)
  from wf_handle [OF assms Cons.prems] obtain m1 where
    "handle env i m = Inr m1" "wellFormed m1" by blast
  with Cons.IH [of m1] show ?case by simp
qed

lemma wellFormed_closed:
  assumes "wellFormed m" "currentCoordinate m \<noteq> 0"
  shows "\<exists>coords. currentRing (store m) (idString (currentId m)) = Inr coords \<and> closedRing coords"
  using wellFormedD [OF assms] by blast

lemma exampleId_fresh: "freshIds example_env"
proof -
  have bound: "length k \<le> foldr (\<lambda>p n. max (length (fst p)) n) st 0" if "k \<in> fst ` set st"
    for k and st :: feature_store
    using that by (induction st) (auto simp add: le_max_iff_disj)
  have "map_of st (exampleId st) = None" for st
  proof (rule ccontr)
    assume "map_of st (exampleId st) \<noteq> None"
    then have "exampleId st \<in> fst ` set st"
      by (simp add: map_of_eq_None_iff)
    from bound [OF this] show False by (simp add: exampleId_def)
  qed
  then show ?thesis by (simp add: freshIds_def example_env_def exampleId_def)
qed


text \<open>
  Claim C6. Whatever clicks, mouse moves and key events a freshly constructed mode
  receives, every handler completes, and after each of them the ring stored for the
  polygon in progress is closed: it is not empty and its first and last coordinates are
  the same. This holds at every intermediate state, since it holds after every prefix
  of the events. The store is assumed to assign handles that are not in use.
\<close>

theorem ring_closed_throughout:
  assumes "freshIds env"
  shows "\<exists>m. run env inputs (constructor opts st cur) = Inr m
           \<and> (currentCoordinate m = 0 \<longleftrightarrow> currentId m = None)
           \<and> (currentCoordinate m \<noteq> 0 \<longrightarrow>
                (\<exists>coords. currentRing (store m) (idString (currentId m)) = Inr coords
                         \<and> coords \<noteq> [] \<and> hd coords = last coords))"
proof -
  from wf_run [OF assms wf_constructor] obtain m where
    m: "run env inputs (constructor opts st cur) = Inr m" "wellFormed m" by blast
  have "currentCoordinate m = 0 \<longleftrightarrow> currentId m = None"
    using m(2) by (auto simp add: wellFormed_def truthy_def idString_def split: if_splits option.splits)
  moreover have "currentCoordinate m \<noteq> 0 \<longrightarrow>
      (\<exists>coords. currentRing (store m) (idString (currentId m)) = Inr coords
               \<and> coords \<noteq> [] \<and> hd coords = last coords)"
    using wellFormed_closed [OF m(2)] by (simp add: closedRing_def)
  ultimately show ?thesis using m(1) by (intro exI [of _ m]) simp
qed

theorem ring_closed_throughout_witness:
  "freshIds example_env
   \<and> (\<exists>m. run example_env
             [Click (pointer 0 0), Move (pointer 1 1), Click (pointer 1 1), Click (pointer 2 0),
              Move (pointer 0 1)]
             (constructor None [] ''crosshair'') = Inr m
          \<and> (currentCoordinate m = 0 \<longleftrightarrow> currentId m = None)
          \<and> (currentCoordinate m \<noteq> 0 \<longrightarrow>
               (\<exists>coords. currentRing (store m) (idString (currentId m)) = Inr coords
                        \<and> coords \<noteq> [] \<and> hd coords = last coords)))"
  using ring_closed_throughout [OF exampleId_fresh] exampleId_fresh by blast

end
